theory Spec2Isabelle
  imports Complex_Main
begin

section \<open>Connection parameters and the hashable wrapper\<close>

text \<open>
  The module \<^verbatim>\<open>django_mysqlpool/backends/mysqlpool/base.py\<close> replaces the
  \<^verbatim>\<open>connect\<close> function of Django's MySQL backend by one that goes through an
  SQLAlchemy connection pool. This section embeds the part that prepares the keyword
  arguments: \<^verbatim>\<open>isiterable\<close>, \<^verbatim>\<open>HashableDict\<close> and the first half of
  \<^verbatim>\<open>connect\<close>.
\<close>

subsection \<open>Python values\<close>

text \<open>
  The values found inside the \<^verbatim>\<open>conv\<close> and \<^verbatim>\<open>ssl\<close> mappings: numbers,
  strings, sequences, and opaque objects (conversion functions, type objects), which are
  named by a string and are not iterable.
\<close>

datatype pyval =
    PNone
  | PBool bool
  | PInt int
  | PStr string
  | PObj string
  | PTuple "pyval list"
  | PList "pyval list"

text \<open>
  A dictionary is the list of its items in iteration order; its keys are distinct.
\<close>

type_synonym pydict = "(pyval \<times> pyval) list"

text \<open>
  The builtin \<^verbatim>\<open>iter(value)\<close> yields the elements of a sequence and the characters
  of a string (each a string of length one); on every other value of \<^typ>\<open>pyval\<close> it
  raises \<^verbatim>\<open>TypeError\<close>, which is the result \<^const>\<open>None\<close> here.
\<close>

fun py_iter :: "pyval \<Rightarrow> pyval list option" where
  "py_iter (PStr s) = Some (map (\<lambda>c. PStr [c]) s)"
| "py_iter (PTuple xs) = Some xs"
| "py_iter (PList xs) = Some xs"
| "py_iter PNone = None"
| "py_iter (PBool b) = None"
| "py_iter (PInt n) = None"
| "py_iter (PObj a) = None"

text \<open>
  \<^verbatim>\<open>
  def isiterable(value):
      try:
          iter(value)
          return True
      except TypeError:
          return False
  \<close>
\<close>

definition isiterable :: "pyval \<Rightarrow> bool" where
  "isiterable v = (case py_iter v of Some xs \<Rightarrow> True | None \<Rightarrow> False)"

text \<open>The builtin \<^verbatim>\<open>tuple(v)\<close>: the tuple of the elements \<^verbatim>\<open>iter(v)\<close> yields.\<close>

definition py_tuple :: "pyval \<Rightarrow> pyval option" where
  "py_tuple v = map_option PTuple (py_iter v)"

subsection \<open>HashableDict\<close>

text \<open>
  \<^verbatim>\<open>
  class HashableDict(dict):
      def __hash__(self):
          """... The hash is determined by converting to a sorted tuple of key-value
          pairs and hashing that."""
          items = [(n, tuple(v)) for n, v in self.items() if isiterable(v)]
          return hash(tuple(items))
  \<close>
  \<open>HashableDict_items\<close> is the list \<^verbatim>\<open>items\<close> of the method: one pair
  \<^verbatim>\<open>(n, tuple(v))\<close> for every item whose value is iterable, in the iteration order of
  the dictionary. \<open>HashableDict_key\<close> is the tuple handed to the builtin
  \<^verbatim>\<open>hash\<close>, and \<open>HashableDict_hash\<close> the method, with the builtin as a
  parameter.
\<close>

definition HashableDict_items :: "pydict \<Rightarrow> pyval list" where
  "HashableDict_items d =
     List.map_filter
       (\<lambda>(n, v). if isiterable v then map_option (\<lambda>t. PTuple [n, t]) (py_tuple v) else None) d"

definition HashableDict_key :: "pydict \<Rightarrow> pyval" where
  "HashableDict_key d = PTuple (HashableDict_items d)"

definition HashableDict_hash :: "(pyval \<Rightarrow> 'h) \<Rightarrow> pydict \<Rightarrow> 'h" where
  "HashableDict_hash hash d = hash (HashableDict_key d)"

text \<open>
  Two dictionaries are equal (\<^verbatim>\<open>==\<close>) when they hold the same items, whatever the order
  in which the items were inserted. Items are compared as values of \<^typ>\<open>pyval\<close>, so
  values of different kinds are different: the equality of Python between numbers of
  different types (\<^verbatim>\<open>1 == True\<close>) is left aside.
\<close>

definition dict_equal :: "pydict \<Rightarrow> pydict \<Rightarrow> bool" where
  "dict_equal d1 d2 \<longleftrightarrow>
     distinct (map fst d1) \<and> distinct (map fst d2) \<and> set d1 = set d2"

subsection \<open>Keyword arguments of connect\<close>

text \<open>
  A keyword argument of \<^verbatim>\<open>connect\<close> is a scalar (host, port, user, flags, ...), a
  plain mapping, or a mapping wrapped as \<^verbatim>\<open>HashableDict\<close>.
\<close>

datatype scalar = SNone | SBool bool | SInt int | SStr string

datatype param = Scalar scalar | Mapping pydict | Hashable pydict

type_synonym kwargs = "string \<rightharpoonup> param"

datatype pyerror = TypeError | ValueError

text \<open>Truth value testing, as \<^verbatim>\<open>if conv:\<close> does it.\<close>

fun truthy :: "param \<Rightarrow> bool" where
  "truthy (Scalar SNone) = False"
| "truthy (Scalar (SBool b)) = b"
| "truthy (Scalar (SInt n)) = (n \<noteq> 0)"
| "truthy (Scalar (SStr s)) = (s \<noteq> [])"
| "truthy (Mapping d) = (d \<noteq> [])"
| "truthy (Hashable d) = (d \<noteq> [])"

text \<open>
  \<^verbatim>\<open>HashableDict(x)\<close> is the constructor of \<^verbatim>\<open>dict\<close>: it copies a mapping, raises
  \<^verbatim>\<open>TypeError\<close> on a value that is not iterable, and \<^verbatim>\<open>ValueError\<close> on a
  non-empty string, whose elements are not pairs.
\<close>

fun HashableDict :: "param \<Rightarrow> pyerror + param" where
  "HashableDict (Mapping d) = Inr (Hashable d)"
| "HashableDict (Hashable d) = Inr (Hashable d)"
| "HashableDict (Scalar (SStr s)) = (if s = [] then Inr (Hashable []) else Inl ValueError)"
| "HashableDict (Scalar SNone) = Inl TypeError"
| "HashableDict (Scalar (SBool b)) = Inl TypeError"
| "HashableDict (Scalar (SInt n)) = Inl TypeError"

text \<open>\<^verbatim>\<open>kwargs.pop(name, None)\<close>: the value removed, and the dictionary without it.\<close>

definition pop :: "string \<Rightarrow> kwargs \<Rightarrow> param \<times> kwargs" where
  "pop name kw = (case kw name of None \<Rightarrow> Scalar SNone | Some v \<Rightarrow> v, kw(name := None))"

text \<open>
  \<^verbatim>\<open>
  if conv:
      kwargs['conv'] = HashableDict(conv)
  \<close>
\<close>

definition wrap_if_truthy :: "string \<Rightarrow> param \<Rightarrow> kwargs \<Rightarrow> pyerror + kwargs" where
  "wrap_if_truthy name v kw =
     (if truthy v then
        (case HashableDict v of Inl e \<Rightarrow> Inl e | Inr h \<Rightarrow> Inr (kw(name \<mapsto> h)))
      else Inr kw)"

text \<open>
  The keyword arguments \<^verbatim>\<open>connect\<close> hands to the pool manager:
  \<^verbatim>\<open>
  def connect(**kwargs):
      conv = kwargs.pop('conv', None)
      ssl = kwargs.pop('ssl', None)
      if conv:
          kwargs['conv'] = HashableDict(conv)
      if ssl:
          kwargs['ssl'] = HashableDict(ssl)
      return get_pool().connect(**kwargs)
  \<close>
\<close>

definition connect_kwargs :: "kwargs \<Rightarrow> pyerror + kwargs" where
  "connect_kwargs kwargs =
     (let (conv, kw1) = pop ''conv'' kwargs;
          (ssl, kw2) = pop ''ssl'' kw1
      in case wrap_if_truthy ''conv'' conv kw2 of
           Inl e \<Rightarrow> Inl e
         | Inr kw3 \<Rightarrow> wrap_if_truthy ''ssl'' ssl kw3)"

section \<open>The queue pool: acquisition\<close>

text \<open>
  \<^verbatim>\<open>QueuePool\<close> subclasses SQLAlchemy's \<^verbatim>\<open>pool.QueuePool\<close> and overrides
  \<^verbatim>\<open>_do_get\<close>. The fields of the pool object that \<^verbatim>\<open>_do_get\<close> reads and writes:
  \<^item> \<open>maxsize\<close>: \<^verbatim>\<open>self._pool.maxsize\<close>, the configured base size, which
    \<^verbatim>\<open>self.size()\<close> returns;
  \<^item> \<open>idle\<close>: the queue \<^verbatim>\<open>self._pool\<close> of idle connections, oldest first;
  \<^item> \<open>overflow\<close>: \<^verbatim>\<open>self._overflow\<close>, which \<^verbatim>\<open>self.overflow()\<close> returns;
  \<^item> \<open>max_overflow\<close>: \<^verbatim>\<open>self._max_overflow\<close>;
  \<^item> \<open>timeout\<close>: \<^verbatim>\<open>self._timeout\<close>, a number of seconds, which may be an
    integer or a float (a rational number here).
  Two more fields record what the method does to the world outside the pool object:
  \<open>created\<close> counts the calls of the connection creator, and \<open>logged\<close> is the list
  of records sent to the logger \<^verbatim>\<open>django.db.backends\<close>.
\<close>

datatype log_record =
    Warning_pool_full int int int
  | Error_timeout rat

record 'c pool =
  maxsize :: int
  idle :: "'c list"
  overflow :: int
  max_overflow :: int
  timeout :: rat
  created :: nat
  logged :: "log_record list"

text \<open>
  How a call of \<^verbatim>\<open>_do_get\<close> ends: it returns a connection, or raises
  \<^verbatim>\<open>exc.TimeoutError\<close>, whose message is formatted with three conversions
  \<^verbatim>\<open>%d\<close> (of \<^verbatim>\<open>self.size()\<close>, \<^verbatim>\<open>self.overflow()\<close> and
  \<^verbatim>\<open>self._timeout\<close>) and so shows three integers, or lets the exception of the
  connection creator through.
\<close>

datatype ('e, 'c) outcome =
    Return 'c
  | TimeoutError int int int
  | CreatorError 'e

text \<open>
  The conversion \<^verbatim>\<open>%d\<close> shows an integer as it is and a float without its
  fraction, rounded toward zero: \<^verbatim>\<open>"%d" % 0.5\<close> is \<^verbatim>\<open>"0"\<close>.
\<close>

definition percent_d :: "rat \<Rightarrow> int" where
  "percent_d x = (if 0 \<le> x then \<lfloor>x\<rfloor> else \<lceil>x\<rceil>)"

subsection \<open>Other threads\<close>

text \<open>
  The pool is shared between threads. Between two steps of one thread's \<^verbatim>\<open>_do_get\<close>
  the other threads may return a connection to the queue, take one from it, or reserve
  and release overflow slots. A schedule lists, for each such window of the running call,
  what the other threads do in it; past its end they do nothing.
\<close>

datatype 'c act = Put 'c | Take | Inc | Dec

fun perform :: "'c act \<Rightarrow> 'c pool \<Rightarrow> 'c pool" where
  "perform (Put c) s = s\<lparr>idle := idle s @ [c]\<rparr>"
| "perform Take s = s\<lparr>idle := tl (idle s)\<rparr>"
| "perform Inc s = s\<lparr>overflow := overflow s + 1\<rparr>"
| "perform Dec s = s\<lparr>overflow := overflow s - 1\<rparr>"

definition others :: "'c act list \<Rightarrow> 'c pool \<Rightarrow> 'c pool" where
  "others w s = fold perform w s"

definition window :: "nat \<Rightarrow> 'c act list list \<Rightarrow> 'c act list" where
  "window i sched = (if i < length sched then sched ! i else [])"


subsection \<open>What the method inherits from SQLAlchemy\<close>

text \<open>
  \<^verbatim>\<open>self._pool.get(wait, self._timeout)\<close> takes the oldest idle connection. On an empty
  queue it raises \<^verbatim>\<open>Empty\<close> (the result \<^const>\<open>None\<close>): at once when \<^verbatim>\<open>wait\<close> is
  false, and when it is true after the timeout has passed with no connection put back;
  the window before the call is where the other threads put one back.
\<close>

definition queue_get :: "bool \<Rightarrow> 'c pool \<Rightarrow> ('c \<times> 'c pool) option" where
  "queue_get wait s = (case idle s of [] \<Rightarrow> None | c # cs \<Rightarrow> Some (c, s\<lparr>idle := cs\<rparr>))"

text \<open>
  \<^verbatim>\<open>self._inc_overflow()\<close> reserves an overflow slot: always when the maximum is the
  sentinel \<open>-1\<close>, otherwise only below the maximum. \<^verbatim>\<open>self._dec_overflow()\<close> gives a
  slot back.
\<close>

definition inc_overflow :: "'c pool \<Rightarrow> bool \<times> 'c pool" where
  "inc_overflow s =
     (if max_overflow s = -1 then (True, s\<lparr>overflow := overflow s + 1\<rparr>)
      else if overflow s < max_overflow s then (True, s\<lparr>overflow := overflow s + 1\<rparr>)
      else (False, s))"

definition dec_overflow :: "'c pool \<Rightarrow> 'c pool" where
  "dec_overflow s = s\<lparr>overflow := overflow s - 1\<rparr>"

text \<open>
  \<^verbatim>\<open>self._create_connection()\<close> calls the connection creator, which returns a
  connection or raises. The creator is a parameter: \<open>creator n\<close> is what its call number
  \<open>n\<close> does.
\<close>

definition create_connection :: "(nat \<Rightarrow> 'e + 'c) \<Rightarrow> 'c pool \<Rightarrow> ('e + 'c) \<times> 'c pool" where
  "create_connection creator s = (creator (created s), s\<lparr>created := Suc (created s)\<rparr>)"

definition log :: "log_record \<Rightarrow> 'c pool \<Rightarrow> 'c pool" where
  "log r s = s\<lparr>logged := logged s @ [r]\<rparr>"

definition pool_full :: "'c pool \<Rightarrow> log_record" where
  "pool_full s = Warning_pool_full (maxsize s) (overflow s) (max_overflow s)"

subsection \<open>_do_get\<close>

text \<open>
  \<^verbatim>\<open>
  def _do_get(self):
      use_overflow = self._max_overflow > -1
      try:
          wait = use_overflow and self._overflow >= self._max_overflow
          return self._pool.get(wait, self._timeout)
      except pool.sqla_queue.Empty:
          if use_overflow and self._overflow >= self._max_overflow:
              logger.warning("Database connection pool full. size: {}, overflow: {} of {}"
                  .format(self.size(), self.overflow(), self._max_overflow))
              if not wait:
                  return self._do_get()
              else:
                  logger.error("Unable to establish database connection. Timeout {}"
                      .format(self._timeout))
                  raise exc.TimeoutError(
                      "QueuePool limit of size %d overflow %d reached, "
                      "connection timed out, timeout %d" %
                      (self.size(), self.overflow(), self._timeout))
          if self._inc_overflow():
              if self._overflow >= 0:
                  logger.warning(... same message as above ...)
              try:
                  return self._create_connection()
              except:
                  with util.safe_reraise():
                      self._dec_overflow()
          else:
              return self._do_get()
  \<close>
  \<open>attempt\<close> is one pass through the body. It ends the call (\<open>Finished\<close>) or reaches
  one of the two recursive calls (\<open>Again k\<close>, after \<open>k\<close> windows of the schedule). The
  windows: 0 from reading the counter for \<^verbatim>\<open>wait\<close> until the queue answers, 1 until the
  counter is read again, 2 until \<^verbatim>\<open>_inc_overflow\<close>, 3 while the creator runs.
\<close>

datatype ('e, 'c) step =
    Finished "('e, 'c) outcome" "'c pool"
  | Again nat "'c pool"

definition attempt :: "'c act list list \<Rightarrow> (nat \<Rightarrow> 'e + 'c) \<Rightarrow> 'c pool \<Rightarrow> ('e, 'c) step" where
  "attempt sched creator s =
     (let use_overflow = max_overflow s > -1;
          wait = use_overflow \<and> overflow s \<ge> max_overflow s
      in case queue_get wait (others (window 0 sched) s) of
           Some (c, s1) \<Rightarrow> Finished (Return c) s1
         | None \<Rightarrow>
             (let s2 = others (window 1 sched) (others (window 0 sched) s) in
              if use_overflow \<and> overflow s2 \<ge> max_overflow s2 then
                (let s3 = log (pool_full s2) s2 in
                 if \<not> wait then Again 2 s3
                 else Finished (TimeoutError (maxsize s3) (overflow s3) (percent_d (timeout s3)))
                        (log (Error_timeout (timeout s3)) s3))
              else
                (case inc_overflow (others (window 2 sched) s2) of
                   (True, s3) \<Rightarrow>
                     (let s4 = (if overflow s3 \<ge> 0 then log (pool_full s3) s3 else s3) in
                      case create_connection creator s4 of
                        (Inr c, s5) \<Rightarrow> Finished (Return c) s5
                      | (Inl e, s5) \<Rightarrow>
                          Finished (CreatorError e) (dec_overflow (others (window 3 sched) s5)))
                 | (False, s3) \<Rightarrow> Again 3 s3)))"

text \<open>
  The method itself. The recursion of the source has no bound of its own, so the model
  counts the passes: \<^const>\<open>None\<close> is a call that has not ended after \<open>fuel\<close> passes.
\<close>

fun do_get :: "nat \<Rightarrow> 'c act list list \<Rightarrow> (nat \<Rightarrow> 'e + 'c) \<Rightarrow> 'c pool
    \<Rightarrow> (('e, 'c) outcome \<times> 'c pool) option" where
  "do_get 0 sched creator s = None"
| "do_get (Suc fuel) sched creator s =
     (case attempt sched creator s of
        Finished r s' \<Rightarrow> Some (r, s')
      | Again k s' \<Rightarrow> do_get fuel (drop k sched) creator s')"

section \<open>The pool manager and get_pool\<close>

text \<open>
  \<^verbatim>\<open>get_pool\<close> keeps one pool manager, the object SQLAlchemy's \<^verbatim>\<open>pool.manage\<close>
  returns, in the module global \<^verbatim>\<open>MYSQLPOOL\<close>. The manager holds one pool for each
  distinct set of connection parameters.
\<close>

subsection \<open>Objects\<close>

type_synonym config = "string \<rightharpoonup> pyval"

text \<open>
  A pool object: its identity (the number of objects allocated before it), the class it
  is an instance of, and the keyword arguments it was constructed with.
\<close>

record pool_object =
  ident :: nat
  pool_class :: pyval
  pool_args :: config

text \<open>
  The manager (SQLAlchemy's \<^verbatim>\<open>_DBProxy\<close>): the pool class and the keyword arguments
  for the pools it constructs, the dictionary of its pools, the attribute \<^verbatim>\<open>_pid\<close>
  that \<^verbatim>\<open>get_pool\<close> sets on it, and whether SQLAlchemy's table of managers
  (\<^verbatim>\<open>sqlalchemy.pool.proxies\<close>) still refers to it.

  A dictionary finds the entry of a key when the key it stored has the same hash and is
  \<^verbatim>\<open>==\<close> to the key. Having the same hash and being \<^verbatim>\<open>==\<close> divides the keys into
  classes, the slots of the dictionary, and the dictionary is a map from slots to values.
  The type \<open>'k\<close> is the type of the slots: two keys are the same \<open>'k\<close> exactly when
  the dictionary takes one for the other.
\<close>

record 'k manager =
  poolclass :: pyval
  kw :: config
  pools :: "'k \<rightharpoonup> pool_object"
  pid_attr :: "int option"
  in_proxies :: bool

text \<open>
  The state of one process: the global \<^verbatim>\<open>MYSQLPOOL\<close> and the number of pool objects
  allocated so far. A fork hands the child a copy of the state of its parent.
\<close>

record 'k process =
  MYSQLPOOL :: "'k manager option"
  objects :: nat

definition QueuePool :: pyval where
  "QueuePool = PObj ''django_mysqlpool.backends.mysqlpool.base.QueuePool''"

definition DEFAULT_POOL_TIMEOUT :: int where
  "DEFAULT_POOL_TIMEOUT = 119"

subsection \<open>What SQLAlchemy provides\<close>

text \<open>
  \<^verbatim>\<open>_DBProxy(module, poolclass=QueuePool, **kw)\<close> takes the pool class out of the
  keyword arguments and keeps the rest for the pools. \<^verbatim>\<open>pool.manage(module, **params)\<close>
  returns the manager the table holds for the module, and otherwise constructs one and
  enters it in the table; while \<^verbatim>\<open>MYSQLPOOL\<close> is \<^verbatim>\<open>None\<close> the table holds none for
  \<^verbatim>\<open>OldDatabase\<close>, an object of this module that only \<^verbatim>\<open>get_pool\<close> passes on.
\<close>

definition DBProxy :: "config \<Rightarrow> 'k manager" where
  "DBProxy params =
     \<lparr>poolclass = (case params ''poolclass'' of
                     Some c \<Rightarrow> c | None \<Rightarrow> PObj ''sqlalchemy.pool.QueuePool''),
      kw = params(''poolclass'' := None),
      pools = Map.empty,
      pid_attr = None,
      in_proxies = False\<rparr>"

definition manage :: "config \<Rightarrow> 'k manager" where
  "manage params = (DBProxy params)\<lparr>in_proxies := True\<rparr>"

text \<open>
  \<^verbatim>\<open>pool.clear_managers()\<close> closes every manager of the table, which empties the
  dictionary of its pools, and then empties the table. A manager the table no longer
  holds is left as it is.
\<close>

definition clear_managers :: "'k manager \<Rightarrow> 'k manager" where
  "clear_managers m =
     (if in_proxies m then m\<lparr>pools := Map.empty, in_proxies := False\<rparr> else m)"

text \<open>
  \<^verbatim>\<open>_DBProxy.get_pool\<close>, which \<^verbatim>\<open>_DBProxy.connect\<close> calls with the serialized
  keyword arguments as key: the pool the dictionary finds for the key (the pool stored in
  the slot of the key), or else a new pool object of the manager's pool class, constructed
  with the manager's keyword arguments and stored.
\<close>

definition DBProxy_get_pool :: "'k \<Rightarrow> 'k manager \<Rightarrow> nat \<Rightarrow> pool_object \<times> 'k manager \<times> nat" where
  "DBProxy_get_pool key m n =
     (case pools m key of
        Some q \<Rightarrow> (q, m, n)
      | None \<Rightarrow>
          (let q = \<lparr>ident = n, pool_class = poolclass m, pool_args = kw m\<rparr>
           in (q, m\<lparr>pools := (pools m)(key \<mapsto> q)\<rparr>, Suc n)))"

subsection \<open>get_pool\<close>

definition setdefault :: "string \<Rightarrow> pyval \<Rightarrow> config \<Rightarrow> config" where
  "setdefault name v c = (case c name of None \<Rightarrow> c(name \<mapsto> v) | Some x \<Rightarrow> c)"

text \<open>
  The keyword arguments the manager is created with. \<open>settings\<close> is the attribute
  \<^verbatim>\<open>MYSQLPOOL_ARGUMENTS\<close> of the Django settings, \<^const>\<open>None\<close> when there is none.
  \<^verbatim>\<open>
  backend = QueuePool
  kwargs = getattr(settings, 'MYSQLPOOL_ARGUMENTS', {})
  kwargs.setdefault('poolclass', backend)
  kwargs.setdefault('recycle', DEFAULT_POOL_TIMEOUT)
  kwargs['echo'] = False
  \<close>
\<close>

definition pool_arguments :: "config option \<Rightarrow> config" where
  "pool_arguments settings =
     (let kwargs = (case settings of None \<Rightarrow> Map.empty | Some a \<Rightarrow> a);
          kwargs1 = setdefault ''poolclass'' QueuePool kwargs;
          kwargs2 = setdefault ''recycle'' (PInt DEFAULT_POOL_TIMEOUT) kwargs1
      in kwargs2(''echo'' \<mapsto> PBool False))"

text \<open>
  \<^verbatim>\<open>
  def get_pool():
      global MYSQLPOOL
      if MYSQLPOOL is None:
          ... kwargs as above ...
          MYSQLPOOL = pool.manage(OldDatabase, **kwargs)
          setattr(MYSQLPOOL, '_pid', os.getpid())
      if getattr(MYSQLPOOL, '_pid', None) != os.getpid():
          pool.clear_managers()
      return MYSQLPOOL
  \<close>
  \<open>getpid\<close> is what \<^verbatim>\<open>os.getpid()\<close> returns in the calling process.
\<close>

definition get_pool :: "config option \<Rightarrow> int \<Rightarrow> 'k process \<Rightarrow> 'k manager \<times> 'k process" where
  "get_pool settings getpid p =
     (let m = (case MYSQLPOOL p of
                 None \<Rightarrow> (manage (pool_arguments settings))\<lparr>pid_attr := Some getpid\<rparr>
               | Some m0 \<Rightarrow> m0);
          m' = (if pid_attr m \<noteq> Some getpid then clear_managers m else m)
      in (m', p\<lparr>MYSQLPOOL := Some m'\<rparr>))"

text \<open>
  The pool a call \<^verbatim>\<open>get_pool().connect(**kwargs)\<close> selects for the key of its keyword
  arguments, and the state of the process after it.
\<close>

definition get_or_create :: "config option \<Rightarrow> int \<Rightarrow> 'k \<Rightarrow> 'k process \<Rightarrow> pool_object \<times> 'k process" where
  "get_or_create settings getpid key p =
     (let (m, p1) = get_pool settings getpid p;
          (q, m', n) = DBProxy_get_pool key m (objects p1)
      in (q, p1\<lparr>MYSQLPOOL := Some m', objects := n\<rparr>))"

text \<open>
  \<^verbatim>\<open>connect\<close>, up to the choice of the pool: the keyword arguments are prepared first,
  so an exception there leaves the process as it was. \<open>serialize\<close> is the slot of
  the key the manager computes from the keyword arguments.
\<close>

definition connect :: "(kwargs \<Rightarrow> 'k) \<Rightarrow> config option \<Rightarrow> int \<Rightarrow> kwargs \<Rightarrow> 'k process
    \<Rightarrow> (pyerror + kwargs \<times> pool_object) \<times> 'k process" where
  "connect serialize settings getpid kwargs p =
     (case connect_kwargs kwargs of
        Inl e \<Rightarrow> (Inl e, p)
      | Inr kwargs' \<Rightarrow>
          (let (q, p') = get_or_create settings getpid (serialize kwargs') p
           in (Inr (kwargs', q), p')))"

text \<open>
  The slot of a \<^verbatim>\<open>HashableDict\<close>: its hash, which is that of \<^verbatim>\<open>__hash__\<close>, and
  its items as a set, which is what \<^verbatim>\<open>==\<close> of dictionaries compares.
\<close>

definition HashableDict_slot :: "(pyval \<Rightarrow> 'h) \<Rightarrow> pydict \<Rightarrow> 'h \<times> (pyval \<times> pyval) set" where
  "HashableDict_slot hash d = (HashableDict_hash hash d, set d)"

text \<open>
  The slot of the key of a call whose only keyword argument is \<^verbatim>\<open>ssl\<close>. The key
  is the tuple \<^verbatim>\<open>(('ssl', value),)\<close>, or the empty tuple when \<^verbatim>\<open>connect\<close> has
  removed the argument; tuples are \<^verbatim>\<open>==\<close> when their elements are, and the hash of
  a tuple is computed from the hashes of its elements, so the slot of the key is that of
  the wrapped mapping.
\<close>

definition ssl_slot :: "(pyval \<Rightarrow> 'h) \<Rightarrow> kwargs \<Rightarrow> ('h \<times> (pyval \<times> pyval) set) option" where
  "ssl_slot hash kwargs =
     (case kwargs ''ssl'' of
        Some (Hashable d) \<Rightarrow> Some (HashableDict_slot hash d)
      | _ \<Rightarrow> None)"

text \<open>A process that calls for one key after the other.\<close>

fun calls :: "config option \<Rightarrow> int \<Rightarrow> 'k list \<Rightarrow> 'k process \<Rightarrow> 'k process" where
  "calls settings getpid [] p = p"
| "calls settings getpid (key # keys) p =
     calls settings getpid keys (snd (get_or_create settings getpid key p))"

text \<open>A process that has not called \<^verbatim>\<open>get_pool\<close> yet.\<close>

definition fresh_process :: "'k process" where
  "fresh_process = \<lparr>MYSQLPOOL = None, objects = 0\<rparr>"

text \<open>
  A process is settled on a pool for a key once its manager holds the pool under the key
  and \<^verbatim>\<open>get_pool\<close> can no longer empty the manager in this process: the recorded
  process identifier is the current one, or the table of managers has let go of the
  manager.
\<close>

definition settled :: "int \<Rightarrow> 'k \<Rightarrow> pool_object \<Rightarrow> 'k process \<Rightarrow> bool" where
  "settled getpid key q p \<longleftrightarrow>
     (\<exists>m. MYSQLPOOL p = Some m \<and> (pid_attr m = Some getpid \<or> \<not> in_proxies m)
          \<and> pools m key = Some q)"

section \<open>Properties of the connection parameters\<close>

lemma HashableDict_items_Nil:
  "HashableDict_items [] = []"
  by (simp add: HashableDict_items_def)

lemma HashableDict_items_Cons:
  "HashableDict_items ((n, v) # d) =
     (case py_iter v of None \<Rightarrow> [] | Some xs \<Rightarrow> [PTuple [n, PTuple xs]]) @ HashableDict_items d"
  by (simp add: HashableDict_items_def isiterable_def py_tuple_def split: option.splits)

lemma set_HashableDict_items:
  "set (HashableDict_items d) =
     {PTuple [n, PTuple xs] | n v xs. (n, v) \<in> set d \<and> py_iter v = Some xs}"
proof (induction d)
  case Nil
  show ?case by (simp add: HashableDict_items_Nil)
next
  case (Cons a d)
  obtain n v where a: "a = (n, v)" by (cases a)
  show ?case
  proof (cases "py_iter v")
    case None
    then show ?thesis unfolding a HashableDict_items_Cons using Cons.IH by auto
  next
    case (Some xs)
    then show ?thesis unfolding a HashableDict_items_Cons using Cons.IH by auto
  qed
qed


text \<open>
  Equal dictionaries contribute the same pairs to the hash; only the order of the pairs
  in the hashed tuple can differ.
\<close>

lemma dict_equal_same_items:
  "dict_equal d1 d2 \<Longrightarrow> set (HashableDict_items d1) = set (HashableDict_items d2)"
  by (simp add: dict_equal_def set_HashableDict_items)

lemma connect_kwargs_falsy:
  assumes "connect_kwargs kwargs = Inr kwargs'" "name = ''conv'' \<or> name = ''ssl''"
    "kwargs name = Some v" "\<not> truthy v"
  shows "kwargs' name = None"
  using assms
  by (auto simp: connect_kwargs_def pop_def wrap_if_truthy_def
      split: prod.splits sum.splits if_splits)

lemma connect_kwargs_truthy:
  assumes "connect_kwargs kwargs = Inr kwargs'" "name = ''conv'' \<or> name = ''ssl''"
    "kwargs name = Some (Mapping d)" "d \<noteq> []"
  shows "kwargs' name = Some (Hashable d)"
  using assms
  by (auto simp: connect_kwargs_def pop_def wrap_if_truthy_def
      split: prod.splits sum.splits if_splits)


lemma connect_forwards_connect_kwargs:
  "fst (connect serialize settings getpid kwargs p) = Inr (kwargs', q)
   \<Longrightarrow> connect_kwargs kwargs = Inr kwargs'"
  by (auto simp: connect_def split: sum.splits prod.splits)

text \<open>
  Claim C1: two parameter maps that are equal value by value, their nested mappings
  possibly built in different orders, give keys that are equal and hash equally.

  The keys are equal, but the hash follows the insertion order: the docstring of
  \<^verbatim>\<open>__hash__\<close> promises a sorted tuple, and the method hashes the items as the
  dictionary yields them. For \<^verbatim>\<open>ssl={'ca': 'a.pem', 'cert': 'b.pem'}\<close> and the same
  mapping built as \<^verbatim>\<open>{'cert': 'b.pem', 'ca': 'a.pem'}\<close>, \<^verbatim>\<open>connect\<close> wraps both, the
  wrapped dictionaries are equal, and the tuples handed to \<^verbatim>\<open>hash\<close> differ.
\<close>

theorem hash_follows_insertion_order:
  "(let d1 = [(PStr ''ca'', PStr ''a.pem''), (PStr ''cert'', PStr ''b.pem'')];
        d2 = [(PStr ''cert'', PStr ''b.pem''), (PStr ''ca'', PStr ''a.pem'')]
    in dict_equal d1 d2
       \<and> map_sum id (\<lambda>k. k ''ssl'') (connect_kwargs [''ssl'' \<mapsto> Mapping d1])
           = Inr (Some (Hashable d1))
       \<and> map_sum id (\<lambda>k. k ''ssl'') (connect_kwargs [''ssl'' \<mapsto> Mapping d2])
           = Inr (Some (Hashable d2))
       \<and> HashableDict_key d1 =
           PTuple [PTuple [PStr ''ca'', PTuple [PStr ''a'', PStr ''.'', PStr ''p'', PStr ''e'', PStr ''m'']],
                   PTuple [PStr ''cert'', PTuple [PStr ''b'', PStr ''.'', PStr ''p'', PStr ''e'', PStr ''m'']]]
       \<and> HashableDict_key d1 \<noteq> HashableDict_key d2)"
  by (simp add: Let_def dict_equal_def insert_commute connect_kwargs_def pop_def
      wrap_if_truthy_def HashableDict_key_def HashableDict_items_Cons HashableDict_items_Nil)




text \<open>
  Claim C10: when the keyword argument \<^verbatim>\<open>conv\<close> or \<^verbatim>\<open>ssl\<close> of \<^verbatim>\<open>connect\<close> is
  present but falsy (an empty mapping, \<^verbatim>\<open>None\<close>), it is removed and not forwarded to
  the connect of the pool at all; a truthy mapping is forwarded wrapped as a
  \<^verbatim>\<open>HashableDict\<close>.
\<close>

theorem connect_drops_falsy_wraps_truthy:
  assumes "fst (connect serialize settings getpid kwargs p) = Inr (kwargs', q)"
      and "name = ''conv'' \<or> name = ''ssl''"
  shows "(\<forall>v. kwargs name = Some v \<and> \<not> truthy v \<longrightarrow> kwargs' name = None)
       \<and> (\<forall>d. kwargs name = Some (Mapping d) \<and> d \<noteq> [] \<longrightarrow> kwargs' name = Some (Hashable d))"
proof -
  from assms(1) have ok: "connect_kwargs kwargs = Inr kwargs'"
    by (rule connect_forwards_connect_kwargs)
  show ?thesis
    using connect_kwargs_falsy[OF ok assms(2)] connect_kwargs_truthy[OF ok assms(2)]
    by blast
qed

theorem connect_drops_falsy_wraps_truthy_witness:
  "\<exists>kwargs' q.
     fst (connect (\<lambda>k. k ''host'') None 4711
           [''host'' \<mapsto> Scalar (SStr ''db''), ''conv'' \<mapsto> Mapping [],
            ''ssl'' \<mapsto> Mapping [(PStr ''ca'', PStr ''a.pem'')]]
           fresh_process) = Inr (kwargs', q)
     \<and> kwargs' ''conv'' = None
     \<and> kwargs' ''ssl'' = Some (Hashable [(PStr ''ca'', PStr ''a.pem'')])"
proof -
  let ?kw = "[''host'' \<mapsto> Scalar (SStr ''db''), ''conv'' \<mapsto> Mapping [],
              ''ssl'' \<mapsto> Mapping [(PStr ''ca'', PStr ''a.pem'')]]"
  let ?r = "fst (connect (\<lambda>k. k ''host'') None 4711 ?kw (fresh_process :: (param option) process))"
  obtain kwargs' q where r: "?r = Inr (kwargs', q)"
    by (simp add: connect_def connect_kwargs_def pop_def wrap_if_truthy_def case_prod_beta)
  have conv: "?kw ''conv'' = Some (Mapping []) \<and> \<not> truthy (Mapping [])"
    by simp
  have ssl: "?kw ''ssl'' = Some (Mapping [(PStr ''ca'', PStr ''a.pem'')])
      \<and> [(PStr ''ca'', PStr ''a.pem'')] \<noteq> []"
    by simp
  from connect_drops_falsy_wraps_truthy[OF r, of "''conv''"] conv
  have 1: "kwargs' ''conv'' = None" by blast
  from connect_drops_falsy_wraps_truthy[OF r, of "''ssl''"] ssl
  have 2: "kwargs' ''ssl'' = Some (Hashable [(PStr ''ca'', PStr ''a.pem'')])" by blast
  from r 1 2 show ?thesis by blast
qed

section \<open>Properties of the acquisition\<close>

subsection \<open>What the other threads leave alone\<close>

lemma perform_frame [simp]:
  "maxsize (perform a s) = maxsize s"
  "max_overflow (perform a s) = max_overflow s"
  "timeout (perform a s) = timeout s"
  "created (perform a s) = created s"
  "logged (perform a s) = logged s"
  "pool.more (perform a s) = pool.more s"
  by (cases a; simp)+

lemma others_Nil [simp]: "others [] s = s"
  by (simp add: others_def)

lemma others_Cons: "others (a # w) s = others w (perform a s)"
  by (simp add: others_def)

lemma others_frame [simp]:
  "maxsize (others w s) = maxsize s"
  "max_overflow (others w s) = max_overflow s"
  "timeout (others w s) = timeout s"
  "created (others w s) = created s"
  "logged (others w s) = logged s"
  "pool.more (others w s) = pool.more s"
  by (induction w arbitrary: s; simp add: others_Cons)+

lemma window_Nil [simp]: "window i [] = []"
  by (simp add: window_def)

text \<open>
  The other threads act on the queue and on the counter only, and what they do to the
  counter does not depend on its value: a shift of the counter passes through.
\<close>

lemma others_shift:
  "idle t = idle s \<Longrightarrow> overflow t = overflow s + d \<Longrightarrow>
   idle (others w t) = idle (others w s) \<and> overflow (others w t) = overflow (others w s) + d"
proof (induction w arbitrary: s t)
  case Nil
  then show ?case by simp
next
  case (Cons a w)
  have "idle (perform a t) = idle (perform a s)
      \<and> overflow (perform a t) = overflow (perform a s) + d"
    using Cons.prems by (cases a) simp_all
  then show ?case
    using Cons.IH[of "perform a t" "perform a s"] by (simp add: others_Cons)
qed

lemma dec_after_others:
  assumes "idle t = idle s" "overflow t = overflow s + 1" "maxsize t = maxsize s"
    "max_overflow t = max_overflow s" "timeout t = timeout s" "created t = n" "logged t = lg"
    "pool.more t = pool.more s"
  shows "dec_overflow (others w t) = (others w s)\<lparr>created := n, logged := lg\<rparr>"
  using others_shift[OF assms(1,2), of w] assms(3-)
  by (intro pool.equality) (simp_all add: dec_overflow_def)



subsection \<open>One pass\<close>




subsection \<open>The claims\<close>




text \<open>
  Claim C4: when the reservation of an overflow slot succeeded and the connection creator
  then fails, the overflow counter is decremented back to its value before the attempt,
  and the error of the creator reaches the caller unchanged; the creator is not retried.

  The pass that reserves a slot from the state \<open>s3\<close> and whose creator raises \<open>e\<close> ends
  the call with \<open>e\<close>. The pool is left as the other threads alone would have left it,
  so without them the counter is back at its value; the creator has run once.
\<close>

theorem creator_error_rolls_back:
  assumes "idle (others (window 0 sched) s) = []"
      and "s2 = others (window 1 sched) (others (window 0 sched) s)"
      and "\<not> (-1 < max_overflow s \<and> max_overflow s \<le> overflow s2)"
      and "s3 = others (window 2 sched) s2"
      and "fst (inc_overflow s3)"
      and "creator (created s) = Inl e"
  shows "do_get (Suc fuel) sched creator s =
     Some (CreatorError e,
           (others (window 3 sched) s3)\<lparr>created := Suc (created s),
              logged := logged s @ (if 0 \<le> overflow s3 + 1
                 then [Warning_pool_full (maxsize s) (overflow s3 + 1) (max_overflow s)]
                 else [])\<rparr>)"
proof -
  have inc: "inc_overflow s3 = (True, s3\<lparr>overflow := overflow s3 + 1\<rparr>)"
    using assms(5) by (auto simp: inc_overflow_def split: if_splits)
  have eq2: "others (window (Suc 0) sched) (others (window 0 sched) s) = s2"
    using assms(2) by simp
  have eq3: "others (window 2 sched) s2 = s3"
    using assms(4) by simp
  have fr: "created s3 = created s" "logged s3 = logged s" "maxsize s3 = maxsize s"
      "max_overflow s3 = max_overflow s" "max_overflow s2 = max_overflow s"
    using assms(2,4) by simp_all
  show ?thesis
    using assms(1,3,6) inc
    by (auto simp: attempt_def Let_def queue_get_def log_def pool_full_def
        create_connection_def eq2 eq3 fr intro!: dec_after_others)
qed

theorem creator_error_rolls_back_witness:
  "do_get (Suc 0) [] (\<lambda>n. Inl ''refused'')
     \<lparr>maxsize = 2, idle = ([] :: nat list), overflow = 1, max_overflow = 3,
      timeout = 30, created = 0, logged = []\<rparr>
   = Some (CreatorError ''refused'',
       \<lparr>maxsize = 2, idle = [], overflow = 1, max_overflow = 3, timeout = 30,
        created = Suc 0, logged = [Warning_pool_full 2 2 3]\<rparr>)"
proof -
  let ?s = "\<lparr>maxsize = 2, idle = ([] :: nat list), overflow = 1, max_overflow = 3,
             timeout = 30, created = 0, logged = []\<rparr>"
  have "fst (inc_overflow ?s)"
    by (simp add: inc_overflow_def)
  with creator_error_rolls_back[of "[]" ?s ?s ?s "\<lambda>n. Inl ''refused''" "''refused''" 0]
  show ?thesis by simp
qed

text \<open>
  Claim C6: a pool whose maximum overflow is \<open>-1\<close>, the sentinel for no limit, never
  fails an acquisition with a timeout error; the acquisition can fail only when the
  connection creator fails.

  Whatever the other threads do, the call ends with its first pass: it returns a
  connection, or raises what the creator raised.
\<close>

theorem unlimited_overflow_never_times_out:
  assumes "max_overflow s = -1"
  shows "\<exists>r s'. do_get (Suc fuel) sched creator s = Some (r, s') \<and>
     (case r of
        Return c \<Rightarrow> True
      | TimeoutError sz ov t \<Rightarrow> False
      | CreatorError e \<Rightarrow> creator (created s) = Inl e)"
  using assms
  by (auto simp: attempt_def Let_def inc_overflow_def create_connection_def log_def
      queue_get_def split: option.splits prod.splits sum.splits if_splits list.splits)

theorem unlimited_overflow_never_times_out_witness:
  "\<exists>r s'. do_get (Suc 0) [[Inc, Inc], [Take]] (\<lambda>n. Inr (n + 100))
       \<lparr>maxsize = 1, idle = [], overflow = 7, max_overflow = -1, timeout = 30,
        created = 0, logged = []\<rparr> = Some (r, s') \<and>
     (case r of
        Return c \<Rightarrow> True
      | TimeoutError sz ov t \<Rightarrow> False
      | CreatorError (e :: string) \<Rightarrow> False)"
  using unlimited_overflow_never_times_out
    [of "\<lparr>maxsize = 1, idle = ([] :: nat list), overflow = 7, max_overflow = -1, timeout = 30,
          created = 0, logged = []\<rparr>" 0 "[[Inc, Inc], [Take]]"
        "\<lambda>n. (Inr (n + 100) :: string + nat)"]
  by (auto split: outcome.splits)






section \<open>Properties of the pool manager\<close>

lemma first_call_settles:
  "settled getpid key (fst (get_or_create settings getpid key p))
     (snd (get_or_create settings getpid key p))"
  by (auto simp: settled_def get_or_create_def get_pool_def DBProxy_get_pool_def
      clear_managers_def manage_def DBProxy_def Let_def
      split: option.splits prod.splits if_splits)

lemma later_call_keeps:
  assumes "settled getpid key q p"
  shows "settled getpid key q (snd (get_or_create settings getpid key' p))"
  using assms
  by (auto simp: settled_def get_or_create_def get_pool_def DBProxy_get_pool_def
      clear_managers_def Let_def split: option.splits prod.splits if_splits)

lemma later_call_same:
  assumes "settled getpid key q p"
  shows "fst (get_or_create settings getpid key p) = q"
  using assms
  by (auto simp: settled_def get_or_create_def get_pool_def DBProxy_get_pool_def
      clear_managers_def Let_def split: option.splits prod.splits if_splits)

lemma calls_keep:
  "settled getpid key q p \<Longrightarrow> settled getpid key q (calls settings getpid keys p)"
  by (induction keys arbitrary: p) (simp_all add: later_call_keeps)

text \<open>
  The first call of a child process, which inherits a manager that the table of managers
  still holds, empties the manager, and the pool it then selects is a new object.
\<close>

lemma first_call_after_fork:
  assumes "MYSQLPOOL p = Some m" "in_proxies m" "pid_attr m \<noteq> Some getpid"
    "pools m key = Some q" "ident q < objects p"
  shows "ident (fst (get_or_create settings getpid key p)) \<noteq> ident q
     \<and> pools (fst (get_pool settings getpid p)) = Map.empty"
  using assms
  by (auto simp: get_or_create_def get_pool_def DBProxy_get_pool_def clear_managers_def
      Let_def split: option.splits prod.splits if_splits)






text \<open>
  Claim C3: every call of \<^verbatim>\<open>get_pool\<close> made while the recorded process identifier
  differs from the current one (a fork occurred) clears the whole registry, so that the
  next lookup of a key known before returns a new pool, distinct from the one of before
  the fork.

  The code misses a case. \<^verbatim>\<open>get_pool\<close> calls \<^verbatim>\<open>pool.clear_managers()\<close> on a
  mismatch, never sets \<^verbatim>\<open>_pid\<close> again and never enters the manager in the table again;
  \<^verbatim>\<open>clear_managers\<close> empties the managers the table holds and then the table. So only
  the first mismatching call clears. A process 100 connects for a key, its child 200
  connects (the registry is cleared, a new pool is made), and a child 300 of that child
  connects: the recorded identifier is still 100, nothing is cleared, and process 300 is
  handed the very pool object of process 200.
\<close>

theorem second_fork_keeps_pool:
  "(let (q1, p1) = get_or_create None 100 ''db'' fresh_process;
        (q2, p2) = get_or_create None 200 ''db'' p1;
        (q3, p3) = get_or_create None 300 ''db'' p2
    in ident q1 = 0 \<and> ident q2 = 1
       \<and> map_option pid_attr (MYSQLPOOL p2) = Some (Some 100)
       \<and> map_option (\<lambda>m. pools m ''db'') (MYSQLPOOL (snd (get_pool None 300 p2))) = Some (Some q2)
       \<and> q3 = q2)"
  by (simp add: get_or_create_def get_pool_def DBProxy_get_pool_def clear_managers_def
      manage_def DBProxy_def Let_def fresh_process_def)

text \<open>
  Calls whose keys the dictionary takes for one another, so calls for one slot, are
  given one pool within a process: whatever the state the process starts from and
  whatever slots it asks for in between, a later call for the slot selects the pool
  object of the first call.
\<close>

lemma same_slot_same_pool:
  "fst (get_or_create settings getpid key
         (calls settings getpid keys (snd (get_or_create settings getpid key p))))
   = fst (get_or_create settings getpid key p)"
proof -
  let ?q = "fst (get_or_create settings getpid key p)"
  let ?p1 = "snd (get_or_create settings getpid key p)"
  have "settled getpid key ?q ?p1"
    by (rule first_call_settles)
  then have "settled getpid key ?q (calls settings getpid keys ?p1)"
    by (rule calls_keep)
  then show ?thesis
    by (rule later_call_same)
qed

text \<open>
  Keys whose mappings hold the same items, none of them with an iterable value, are in
  one slot whatever the order of the items: their hash is that of the empty tuple.
\<close>

lemma unhashed_items_share_pool:
  "(let d1 = [(PInt 1, PObj ''f''), (PInt 2, PObj ''g'')];
        d2 = [(PInt 2, PObj ''g''), (PInt 1, PObj ''f'')];
        r1 = connect (ssl_slot hash) None 100 [''ssl'' \<mapsto> Mapping d1] fresh_process;
        r2 = connect (ssl_slot hash) None 100 [''ssl'' \<mapsto> Mapping d2] (snd r1)
    in map_sum id (ident \<circ> snd) (fst r1) = Inr 0
       \<and> map_sum id (ident \<circ> snd) (fst r2) = Inr 0)"
  by (simp add: Let_def connect_def connect_kwargs_def pop_def wrap_if_truthy_def
      ssl_slot_def HashableDict_slot_def HashableDict_hash_def HashableDict_key_def
      HashableDict_items_Cons HashableDict_items_Nil insert_commute
      get_or_create_def get_pool_def DBProxy_get_pool_def clear_managers_def
      manage_def DBProxy_def fresh_process_def)

text \<open>
  Claim C8: for every key, all calls after the first within one process (its identifier
  does not change) return the pool instance that the first call created.

  The code misses this for keys that are equal but do not hash equally, which the
  unsorted \<^verbatim>\<open>__hash__\<close> of \<^verbatim>\<open>HashableDict\<close> produces. A process calls
  \<^verbatim>\<open>connect(ssl={'ca': 'a.pem', 'cert': 'b.pem'})\<close> and then
  \<^verbatim>\<open>connect(ssl={'cert': 'b.pem', 'ca': 'a.pem'})\<close>. The two keys are \<^verbatim>\<open>==\<close>, the
  tuples that \<^verbatim>\<open>__hash__\<close> hands to the builtin differ, and whenever the builtin tells
  them apart the dictionary of the manager does not find the first pool for the second
  key: the second call is given a second pool.
\<close>

theorem equal_keys_get_two_pools:
  assumes "hash (HashableDict_key [(PStr ''ca'', PStr ''a.pem''), (PStr ''cert'', PStr ''b.pem'')])
         \<noteq> hash (HashableDict_key [(PStr ''cert'', PStr ''b.pem''), (PStr ''ca'', PStr ''a.pem'')])"
  shows "(let d1 = [(PStr ''ca'', PStr ''a.pem''), (PStr ''cert'', PStr ''b.pem'')];
              d2 = [(PStr ''cert'', PStr ''b.pem''), (PStr ''ca'', PStr ''a.pem'')];
              r1 = connect (ssl_slot hash) None 100 [''ssl'' \<mapsto> Mapping d1] fresh_process;
              r2 = connect (ssl_slot hash) None 100 [''ssl'' \<mapsto> Mapping d2] (snd r1)
          in dict_equal d1 d2
             \<and> map_sum id (ident \<circ> snd) (fst r1) = Inr 0
             \<and> map_sum id (ident \<circ> snd) (fst r2) = Inr 1)"
  using assms
  by (simp add: Let_def dict_equal_def insert_commute connect_def connect_kwargs_def pop_def
      wrap_if_truthy_def ssl_slot_def HashableDict_slot_def HashableDict_hash_def
      get_or_create_def get_pool_def DBProxy_get_pool_def clear_managers_def
      manage_def DBProxy_def fresh_process_def)

theorem equal_keys_get_two_pools_witness:
  "(let d1 = [(PStr ''ca'', PStr ''a.pem''), (PStr ''cert'', PStr ''b.pem'')];
        d2 = [(PStr ''cert'', PStr ''b.pem''), (PStr ''ca'', PStr ''a.pem'')];
        r1 = connect (ssl_slot (\<lambda>t. t)) None 100 [''ssl'' \<mapsto> Mapping d1] fresh_process;
        r2 = connect (ssl_slot (\<lambda>t. t)) None 100 [''ssl'' \<mapsto> Mapping d2] (snd r1)
    in dict_equal d1 d2
       \<and> map_sum id (ident \<circ> snd) (fst r1) = Inr 0
       \<and> map_sum id (ident \<circ> snd) (fst r2) = Inr 1)"
proof -
  have "HashableDict_key [(PStr ''ca'', PStr ''a.pem''), (PStr ''cert'', PStr ''b.pem'')]
      \<noteq> HashableDict_key [(PStr ''cert'', PStr ''b.pem''), (PStr ''ca'', PStr ''a.pem'')]"
    by (simp add: HashableDict_key_def HashableDict_items_Cons HashableDict_items_Nil)
  then show ?thesis
    by (rule equal_keys_get_two_pools[of "\<lambda>t. t"])
qed




end
